theory Spec2Isabelle
  imports Main
begin

section \<open>Python values, exceptions and calls\<close>

text \<open>
  The backend is Python. A value a function can return or find in a dictionary is a
  \<open>pyval\<close>; \<open>PyNone\<close> is Python's \<^verbatim>\<open>None\<close>. A dictionary keeps its
  entries as an association list.
\<close>

datatype pyval =
    PyNone
  | PyBool bool
  | PyInt int
  | PyStr string
  | PyDict "(string \<times> pyval) list"

datatype exn = TypeError | KeyError | AttributeError | ValidationError

text \<open>
  A call runs in an environment \<open>'w\<close>: everything outside its arguments that a Python
  function could read or change (module globals, the singleton vector-store client, the
  files of the knowledge base, a random source). A call either raises (\<open>Inl\<close>) or
  returns (\<open>Inr\<close>), and hands the environment back as it left it.
\<close>

type_synonym ('w, 'a) py = "'w \<Rightarrow> (exn + 'a) \<times> 'w"

text \<open>
  A body that is the single statement \<^verbatim>\<open>pass\<close> falls off its end: it raises
  nothing, returns \<^verbatim>\<open>None\<close> and touches nothing.
\<close>

definition py_pass :: "('w, pyval) py" where
  "py_pass w = (Inr PyNone, w)"

text \<open>
  \<^verbatim>\<open>obj[key]\<close> with a string key: a dictionary looks the key up, anything else
  (\<^verbatim>\<open>None\<close> included) is not subscriptable by it. Where the association list
  binds a key more than once, the last binding is the dictionary's, as in a Python
  dictionary built by successive assignments.
\<close>

fun subscr :: "pyval \<Rightarrow> string \<Rightarrow> exn + pyval" where
  "subscr (PyDict d) key =
     (case map_of (rev d) key of None \<Rightarrow> Inl KeyError | Some v \<Rightarrow> Inr v)"
| "subscr PyNone key = Inl TypeError"
| "subscr (PyBool b) key = Inl TypeError"
| "subscr (PyInt i) key = Inl TypeError"
| "subscr (PyStr s) key = Inl TypeError"

text \<open>
  \<^verbatim>\<open>f(...)[key]\<close>: reading a slot of what a call returned; an exception of the
  call itself propagates.
\<close>

definition slot_of :: "(exn + pyval) \<times> 'w \<Rightarrow> string \<Rightarrow> exn + pyval" where
  "slot_of r key = (case fst r of Inl e \<Rightarrow> Inl e | Inr v \<Rightarrow> subscr v key)"

text \<open>
  \<^verbatim>\<open>obj.invoke(state)\<close> on what a call returned. The only object the source ever
  yields is \<^verbatim>\<open>None\<close>, which has no attribute; the other values of \<open>pyval\<close>
  have no \<^verbatim>\<open>invoke\<close> either.
\<close>

definition invoke :: "(exn + pyval) \<times> 'w \<Rightarrow> (string \<times> pyval) list \<Rightarrow> (exn + pyval) \<times> 'w" where
  "invoke r state = (case fst r of Inl e \<Rightarrow> (Inl e, snd r) | Inr v \<Rightarrow> (Inl AttributeError, snd r))"

section \<open>agents.py\<close>

text \<open>
  \<^verbatim>\<open>class AgentState(TypedDict): pass\<close> declares no key, and a TypedDict is a
  plain dictionary when the program runs.
\<close>

type_synonym AgentState = "(string \<times> pyval) list"

definition node_profiler :: "AgentState \<Rightarrow> ('w, pyval) py" where
  "node_profiler state = py_pass"

definition node_psychologist :: "AgentState \<Rightarrow> ('w, pyval) py" where
  "node_psychologist state = py_pass"

definition node_decision_maker :: "AgentState \<Rightarrow> ('w, pyval) py" where
  "node_decision_maker state = py_pass"

definition node_synthesizer :: "AgentState \<Rightarrow> ('w, pyval) py" where
  "node_synthesizer state = py_pass"

definition compile_workflow :: "('w, pyval) py" where
  "compile_workflow = py_pass"

section \<open>rag.py\<close>

definition get_vector_store :: "('w, pyval) py" where
  "get_vector_store = py_pass"

definition ingest_knowledge_base :: "string \<Rightarrow> ('w, pyval) py" where
  "ingest_knowledge_base directory_path = py_pass"

text \<open>\<^verbatim>\<open>def retrieve_context(query: str, k: int = 3)\<close>: a call without \<open>k\<close> passes 3.\<close>

definition retrieve_context :: "string \<Rightarrow> int \<Rightarrow> ('w, pyval) py" where
  "retrieve_context query k = py_pass"

definition retrieve_context_default :: "string \<Rightarrow> ('w, pyval) py" where
  "retrieve_context_default query = retrieve_context query 3"

section \<open>Concrete inputs\<close>

text \<open>
  The part of the environment the knowledge-base operations are documented to act on:
  the text files under the ingested directory (path, content) and the entries of the
  vector store (chunk id, chunk text).
\<close>

record kb_env =
  kb_files :: "(string \<times> string) list"
  vector_store :: "(string \<times> string) list"

definition empty_kb :: kb_env where
  "empty_kb = \<lparr>kb_files = [], vector_store = []\<rparr>"

definition one_file_kb :: kb_env where
  "one_file_kb =
     \<lparr>kb_files = [(''kb/biases.txt'', ''Scarcity cues inflate perceived value.'')],
      vector_store = []\<rparr>"

definition one_chunk_kb :: kb_env where
  "one_chunk_kb =
     \<lparr>kb_files = [(''kb/biases.txt'', ''Scarcity cues inflate perceived value.'')],
      vector_store = [(''kb/biases.txt:0'', ''Scarcity cues inflate perceived value.'')]\<rparr>"

text \<open>A state holding a purchase and the budget of the profile.\<close>

definition purchase_state :: "int \<Rightarrow> int \<Rightarrow> AgentState" where
  "purchase_state price budget =
     [(''item_name'', PyStr ''designer jacket''),
      (''price'', PyInt price),
      (''user_profile'', PyDict [(''budget'', PyInt budget), (''risk'', PyStr ''low'')])]"

text \<open>A state holding the outputs of the two evaluators.\<close>

definition evaluated_state :: "bool \<Rightarrow> bool \<Rightarrow> AgentState" where
  "evaluated_state affordable impulsive =
     [(''financial_analysis'', PyDict [(''affordable'', PyBool affordable)]),
      (''psychological_analysis'', PyDict [(''impulsive'', PyBool impulsive)])]"


text \<open>
  The resolution table as the specification words it (section 4.7), for comparison with
  what \<open>node_synthesizer\<close> returns: first argument affordable, second flagged impulsive.
\<close>

fun spec_resolution_table :: "bool \<Rightarrow> bool \<Rightarrow> string" where
  "spec_resolution_table True False = ''approve''"
| "spec_resolution_table True True = ''approve-with-caveats''"
| "spec_resolution_table False False = ''approve-with-caveats''"
| "spec_resolution_table False True = ''reject''"

section \<open>Basic facts\<close>

lemma py_pass_result: "fst (py_pass w) = Inr PyNone"
  by (simp add: py_pass_def)

lemma py_pass_env: "snd (py_pass w) = w"
  by (simp add: py_pass_def)

lemma slot_of_py_pass: "slot_of (py_pass w) key = Inl TypeError"
  by (simp add: slot_of_def py_pass_def)

lemma invoke_py_pass: "invoke (py_pass w) state = (Inl AttributeError, w)"
  by (simp add: invoke_def py_pass_def)

lemma compile_workflow_returns_None: "compile_workflow w = (Inr PyNone, w)"
  by (simp add: compile_workflow_def py_pass_def)

lemma compile_workflow_not_runnable: "invoke (compile_workflow w) state = (Inl AttributeError, w)"
  by (simp add: compile_workflow_def invoke_py_pass)

lemma get_vector_store_returns_None: "get_vector_store w = (Inr PyNone, w)"
  by (simp add: get_vector_store_def py_pass_def)

section \<open>The public operations return nothing\<close>

text \<open>
  Claim C9. For every query string and every \<open>k\<close>, \<open>retrieve_context\<close> returns
  \<^verbatim>\<open>None\<close>, not a context string, and for every directory path
  \<open>ingest_knowledge_base\<close> returns \<^verbatim>\<open>None\<close>, not a chunk count: in every
  environment, without raising, and also when \<open>k\<close> is left to its default.
\<close>

theorem rag_operations_return_None:
  "fst (retrieve_context query k w) = Inr PyNone
   \<and> fst (retrieve_context_default query w) = Inr PyNone
   \<and> fst (ingest_knowledge_base directory_path w) = Inr PyNone"
  by (simp add: retrieve_context_def retrieve_context_default_def ingest_knowledge_base_def
      py_pass_result)

section \<open>Determinism of the nodes\<close>

text \<open>
  Claim C10. Every workflow node is deterministic: called on the same AgentState, each of
  \<open>node_profiler\<close>, \<open>node_psychologist\<close>, \<open>node_decision_maker\<close> and
  \<open>node_synthesizer\<close> gives the same output whatever the environments \<open>w1\<close> and
  \<open>w2\<close> of the two calls hold (no randomness, no hidden state is read), and none of them
  changes the environment (no hidden state is written).
\<close>

theorem nodes_deterministic:
  "fst (node_profiler state w1) = fst (node_profiler state w2)
   \<and> fst (node_psychologist state w1) = fst (node_psychologist state w2)
   \<and> fst (node_decision_maker state w1) = fst (node_decision_maker state w2)
   \<and> fst (node_synthesizer state w1) = fst (node_synthesizer state w2)
   \<and> snd (node_profiler state w) = w
   \<and> snd (node_psychologist state w) = w
   \<and> snd (node_decision_maker state w) = w
   \<and> snd (node_synthesizer state w) = w"
  by (simp add: node_profiler_def node_psychologist_def node_decision_maker_def
      node_synthesizer_def py_pass_result py_pass_env)

section \<open>What the stubs do at the inputs the specification describes\<close>

text \<open>
  Claim C1. The specification says the Synthesizer's label is given by the resolution
  table. On the code, for each of the four rows of the table (here with the two flags
  left open), \<open>node_synthesizer\<close> returns \<^verbatim>\<open>None\<close>: reading any slot of the
  result raises TypeError, so no slot holds the label of the table.
\<close>

theorem node_synthesizer_yields_no_label:
  "node_synthesizer (evaluated_state affordable impulsive) w = (Inr PyNone, w)
   \<and> slot_of (node_synthesizer (evaluated_state affordable impulsive) w) key = Inl TypeError
   \<and> slot_of (node_synthesizer (evaluated_state affordable impulsive) w) key
       \<noteq> Inr (PyStr (spec_resolution_table affordable impulsive))"
  by (simp add: node_synthesizer_def slot_of_py_pass) (simp add: py_pass_def)

text \<open>
  Claim C2. The specification says that at price = budget the affordability boolean is
  true. On the code, at price 500 and budget 500, \<open>node_decision_maker\<close> returns
  \<^verbatim>\<open>None\<close>: no slot of the result holds \<^verbatim>\<open>True\<close>, reading one raises
  TypeError.
\<close>

theorem node_decision_maker_boundary_no_verdict:
  "node_decision_maker (purchase_state 500 500) w = (Inr PyNone, w)
   \<and> slot_of (node_decision_maker (purchase_state 500 500) w) key = Inl TypeError
   \<and> slot_of (node_decision_maker (purchase_state 500 500) w) key \<noteq> Inr (PyBool True)"
  by (simp add: node_decision_maker_def slot_of_py_pass) (simp add: py_pass_def)

text \<open>
  Claim C4. The specification says \<open>retrieve_context\<close> returns the texts of at most
  \<open>k\<close> chunks, concatenated in descending similarity, and an empty result on an empty
  store. On the code, with one chunk in the store, the query
  \<^verbatim>\<open>"impulsive buying late at night"\<close> and \<open>k = 3\<close>, it returns \<^verbatim>\<open>None\<close>
  and not the text of the chunk; on the empty store it returns \<^verbatim>\<open>None\<close> and not
  the empty string.
\<close>

theorem retrieve_context_returns_no_context:
  "retrieve_context ''impulsive buying late at night'' 3 one_chunk_kb = (Inr PyNone, one_chunk_kb)
   \<and> fst (retrieve_context ''impulsive buying late at night'' 3 one_chunk_kb)
       \<noteq> Inr (PyStr ''Scarcity cues inflate perceived value.'')
   \<and> retrieve_context ''impulsive buying late at night'' 3 empty_kb = (Inr PyNone, empty_kb)
   \<and> fst (retrieve_context ''impulsive buying late at night'' 3 empty_kb) \<noteq> Inr (PyStr [])"
  by (simp add: retrieve_context_def py_pass_def)

text \<open>
  Claim C5. The specification says each chunk of an ingested document is upserted under
  a stable id and the number of chunks is returned. On the code, ingesting the
  directory \<^verbatim>\<open>kb\<close>, which holds one text file, into an empty store returns
  \<^verbatim>\<open>None\<close> and leaves the store empty, the first time and the second time.
\<close>

theorem ingest_knowledge_base_upserts_nothing:
  "ingest_knowledge_base ''kb'' one_file_kb = (Inr PyNone, one_file_kb)
   \<and> ingest_knowledge_base ''kb'' (snd (ingest_knowledge_base ''kb'' one_file_kb))
       = (Inr PyNone, one_file_kb)
   \<and> vector_store (snd (ingest_knowledge_base ''kb'' one_file_kb)) = []
   \<and> vector_store (snd (ingest_knowledge_base ''kb''
         (snd (ingest_knowledge_base ''kb'' one_file_kb)))) = []"
  by (simp add: ingest_knowledge_base_def py_pass_def one_file_kb_def)


text \<open>
  Claim C7. The specification says that with an empty knowledge base the Heuristic
  Evaluator still produces a non-empty assessment and the workflow run completes. On the
  code, with an empty store, \<open>node_psychologist\<close> returns \<^verbatim>\<open>None\<close>, so
  reading any slot of the assessment raises TypeError; and what \<open>compile_workflow\<close>
  returns cannot be run, invoking it raises AttributeError.
\<close>

theorem node_psychologist_yields_no_assessment:
  "node_psychologist (purchase_state 500 500) empty_kb = (Inr PyNone, empty_kb)
   \<and> slot_of (node_psychologist (purchase_state 500 500) empty_kb) key = Inl TypeError
   \<and> invoke (compile_workflow empty_kb) (purchase_state 500 500) = (Inl AttributeError, empty_kb)"
  by (simp add: node_psychologist_def slot_of_py_pass invoke_py_pass compile_workflow_def)
    (simp add: py_pass_def)

end
